theory Spec2Isabelle
  imports Complex_Main
begin

section \<open>Data model (types.ts, constants.ts)\<close>

text \<open>
  JavaScript numbers are modelled as the real numbers they approximate: every comparison
  and arithmetic step of the source is kept, rounding is not modelled. Wall-clock
  readings (\<open>Date.now()\<close>) are integers (milliseconds).
\<close>

datatype GameState = LOBBY | COUNTDOWN | PLAYING | GAME_OVER

datatype Role = SURVIVOR | ZOMBIE

datatype Reason = INFECTED | SURVIVED | TIME_UP

record Point =
  px :: real
  py :: real

record Player =
  pid :: string
  nickname :: string
  x :: real
  y :: real
  radius :: real
  role :: Role
  speed :: real
  isBot :: bool
  dx :: real
  dy :: real
  wanderAngle :: real
  target :: "Point option"
  targetX :: "real option"
  targetY :: "real option"

record Obstacle =
  ox :: real
  oy :: real
  width :: real
  height :: real

definition MAP_WIDTH :: real where "MAP_WIDTH = 2500"
definition MAP_HEIGHT :: real where "MAP_HEIGHT = 2500"
definition PLAYER_RADIUS :: real where "PLAYER_RADIUS = 15"
definition PLAYER_SPEED :: real where "PLAYER_SPEED = 4.5"
definition ZOMBIE_SPEED_MULTIPLIER :: real where "ZOMBIE_SPEED_MULTIPLIER = 1.0"
definition VIEW_DISTANCE :: real where "VIEW_DISTANCE = 320"
definition GAME_DURATION :: int where "GAME_DURATION = 180"

section \<open>Math helpers (utils/gameLogic.ts)\<close>

text \<open>\<open>getDistance\<close> takes two points; the source passes players and points alike, so the
  model takes the four coordinates.\<close>

definition getDistance :: "real \<Rightarrow> real \<Rightarrow> real \<Rightarrow> real \<Rightarrow> real" where
  "getDistance x1 y1 x2 y2 = sqrt ((x1 - x2)\<^sup>2 + (y1 - y2)\<^sup>2)"

definition clamp :: "real \<Rightarrow> real \<Rightarrow> real \<Rightarrow> real" where
  "clamp v lo hi = min (max v lo) hi"

definition lerp :: "real \<Rightarrow> real \<Rightarrow> real \<Rightarrow> real" where
  "lerp start end' t = start + (end' - start) * t"

section \<open>Collision resolution (resolveCollision)\<close>

text \<open>The two clamps that open \<open>resolveCollision\<close>.\<close>

definition clampToMap :: "Player \<Rightarrow> Player" where
  "clampToMap p =
     (let p1 = p\<lparr>x := clamp (x p) (radius p) (MAP_WIDTH - radius p)\<rparr>
      in p1\<lparr>y := clamp (y p) (radius p) (MAP_HEIGHT - radius p)\<rparr>)"

text \<open>The broad-phase test of the loop body (the condition of its \<open>continue\<close>).\<close>

definition broadPhaseMiss :: "Player \<Rightarrow> Obstacle \<Rightarrow> bool" where
  "broadPhaseMiss p obs \<longleftrightarrow>
     x p + radius p < ox obs \<or> x p - radius p > ox obs + width obs \<or>
     y p + radius p < oy obs \<or> y p - radius p > oy obs + height obs"


text \<open>One iteration of the loop over the obstacles.\<close>

definition pushOut :: "Player \<Rightarrow> Obstacle \<Rightarrow> Player" where
  "pushOut p obs =
     (if broadPhaseMiss p obs then p
      else
        let closestX = clamp (x p) (ox obs) (ox obs + width obs);
            closestY = clamp (y p) (oy obs) (oy obs + height obs);
            ddx = x p - closestX;
            ddy = y p - closestY;
            dsq = ddx * ddx + ddy * ddy
        in if dsq < radius p * radius p \<and> dsq > 0.0001 then
             let distance = sqrt dsq;
                 overlap = radius p - distance;
                 nx = ddx / distance;
                 ny = ddy / distance
             in p\<lparr>x := x p + nx * overlap, y := y p + ny * overlap\<rparr>
           else p)"

definition resolveCollision :: "Player \<Rightarrow> Obstacle list \<Rightarrow> Player" where
  "resolveCollision player obstacles = foldl pushOut (clampToMap player) obstacles"









section \<open>Host simulation (components/GameCanvas.tsx)\<close>

text \<open>
  The refs and React state of the \<open>GameCanvas\<close> component that the simulation reads and
  writes. Sending packets (\<open>broadcast\<close>, \<open>sendToClient\<close>) and drawing leave this state
  unchanged and are not modelled.
\<close>

datatype error = TypeError

record Canvas =
  playersRef :: "Player list"
  obstaclesRef :: "Obstacle list"
  gameStateRef :: GameState
  gameStartTimeRef :: int
  clientInputsRef :: "string \<rightharpoonup> real \<times> real"
  myIdRef :: string
  timeLeft :: int
  stats :: "nat \<times> nat"
  gameOverReason :: Reason

definition endGame :: "Canvas \<Rightarrow> Reason \<Rightarrow> Canvas" where
  "endGame s reason = s\<lparr>gameStateRef := GAME_OVER, gameOverReason := reason\<rparr>"

text \<open>\<open>startGame\<close>: \<open>now\<close> is the reading of \<open>Date.now()\<close>, \<open>rnd\<close> the value of
  \<open>Math.random()\<close>. Writing \<open>role\<close> through an index outside the array is a TypeError
  in the source.\<close>

definition startGame :: "Canvas \<Rightarrow> int \<Rightarrow> real \<Rightarrow> error + Canvas" where
  "startGame s now rnd =
     (let s1 = s\<lparr>gameStateRef := PLAYING, gameStartTimeRef := now\<rparr>;
          ps = playersRef s1
      in if length ps > 0 then
           let zombieIdx = \<lfloor>rnd * real (length ps)\<rfloor>
           in if 0 \<le> zombieIdx \<and> nat zombieIdx < length ps then
                Inr (s1\<lparr>playersRef := ps[nat zombieIdx := (ps ! nat zombieIdx)\<lparr>role := ZOMBIE\<rparr>]\<rparr>)
              else Inl TypeError
         else Inr s1)"

text \<open>The timer block of \<open>updateHost\<close>.\<close>

definition updateTimer :: "Canvas \<Rightarrow> int \<Rightarrow> Canvas" where
  "updateTimer s now =
     (if gameStateRef s = PLAYING then
        let elapsed = (now - gameStartTimeRef s) div 1000;
            left = max 0 (GAME_DURATION - elapsed);
            s1 = s\<lparr>timeLeft := left\<rparr>
        in if left \<le> 0 then endGame s1 TIME_UP else s1
      else s)"

text \<open>The body of the first \<open>players.forEach\<close> of \<open>updateHost\<close>, statement by statement:
  smoothing, near-zero snap, integration, collision.\<close>

definition smoothVelocity :: "Player \<Rightarrow> real \<Rightarrow> real \<Rightarrow> Player" where
  "smoothVelocity p ix iy =
     (let p1 = p\<lparr>dx := lerp (dx p) ix 0.2\<rparr>
      in p1\<lparr>dy := lerp (dy p1) iy 0.2\<rparr>)"

definition snapVelocity :: "Player \<Rightarrow> Player" where
  "snapVelocity p =
     (let p1 = (if \<bar>dx p\<bar> < 0.01 then p\<lparr>dx := 0\<rparr> else p)
      in if \<bar>dy p1\<bar> < 0.01 then p1\<lparr>dy := 0\<rparr> else p1)"

text \<open>The requested direction \<open>(dx, dy)\<close> of a player: the host's own input, or the
  buffered input of the client, or \<open>(0, 0)\<close>.\<close>

definition inputFor :: "Canvas \<Rightarrow> real \<times> real \<Rightarrow> Player \<Rightarrow> real \<times> real" where
  "inputFor s localInput p =
     (if pid p = myIdRef s then localInput
      else case clientInputsRef s (pid p) of Some i \<Rightarrow> i | None \<Rightarrow> (0, 0))"

definition movePlayer :: "Canvas \<Rightarrow> real \<times> real \<Rightarrow> Player \<Rightarrow> Player" where
  "movePlayer s localInput p =
     (let inp = inputFor s localInput p;
          p1 = smoothVelocity p (fst inp) (snd inp);
          spd = (if role p1 = ZOMBIE then PLAYER_SPEED * ZOMBIE_SPEED_MULTIPLIER else PLAYER_SPEED);
          p2 = snapVelocity p1;
          p3 = p2\<lparr>x := x p2 + dx p2 * spd\<rparr>;
          p4 = p3\<lparr>y := y p3 + dy p3 * spd\<rparr>
      in resolveCollision p4 (obstaclesRef s))"

text \<open>The inner loop over \<open>zombiePlayers\<close>, which stops at the first zombie in reach.\<close>

primrec touchesAny :: "Player \<Rightarrow> Player list \<Rightarrow> bool" where
  "touchesAny p [] = False"
| "touchesAny p (z # zs) =
     (if getDistance (x p) (y p) (x z) (y z) < (radius p + radius z) * 0.8 then True
      else touchesAny p zs)"

definition infect :: "Player list \<Rightarrow> Player \<Rightarrow> Player" where
  "infect zombiePlayers p =
     (if role p = SURVIVOR then
        (if touchesAny p zombiePlayers then p\<lparr>role := ZOMBIE\<rparr> else p)
      else p)"

text \<open>
  The infection block of \<open>updateHost\<close>. \<open>zombiePlayers\<close> is filtered before the loop, and
  the loop changes the role of survivors only, so every distance test reads the zombies
  as they were; each player is counted before its own role is changed.
\<close>

definition updateInfection :: "Canvas \<Rightarrow> Canvas" where
  "updateInfection s =
     (if gameStateRef s = PLAYING then
        let ps = playersRef s;
            zombiePlayers = filter (\<lambda>p. role p = ZOMBIE) ps;
            survivors = length (filter (\<lambda>p. role p = SURVIVOR) ps);
            zombies = length (filter (\<lambda>p. role p \<noteq> SURVIVOR) ps);
            s1 = s\<lparr>playersRef := map (infect zombiePlayers) ps, stats := (survivors, zombies)\<rparr>
        in if survivors = 0 \<and> length ps > 1 then endGame s1 INFECTED else s1
      else s)"

text \<open>\<open>updateHost\<close>: \<open>now\<close> is the reading of \<open>Date.now()\<close> in this tick, \<open>localInput\<close> the
  result of \<open>getLocalInput()\<close>.\<close>

definition updateHost :: "Canvas \<Rightarrow> int \<Rightarrow> real \<times> real \<Rightarrow> Canvas" where
  "updateHost s now localInput =
     (if gameStateRef s = GAME_OVER then s
      else
        let s1 = updateTimer s now;
            s2 = s1\<lparr>playersRef := map (movePlayer s1 localInput) (playersRef s1)\<rparr>
        in updateInfection s2)"

text \<open>What happens on the host during a match: a frame of the loop, an \<open>INPUT\<close> packet
  of a client, or the end of the countdown.\<close>

datatype HostEvent =
    Tick int "real \<times> real"
  | InputPacket string "real \<times> real"
  | StartGame int real

fun hostStep :: "Canvas \<Rightarrow> HostEvent \<Rightarrow> error + Canvas" where
  "hostStep s (Tick now localInput) = Inr (updateHost s now localInput)"
| "hostStep s (InputPacket peer payload) =
     Inr (s\<lparr>clientInputsRef := (clientInputsRef s)(peer \<mapsto> payload)\<rparr>)"
| "hostStep s (StartGame now rnd) = startGame s now rnd"

fun runHost :: "Canvas \<Rightarrow> HostEvent list \<Rightarrow> error + Canvas" where
  "runHost s [] = Inr s"
| "runHost s (e # es) = (case hostStep s e of Inl err \<Rightarrow> Inl err | Inr s1 \<Rightarrow> runHost s1 es)"

text \<open>An event that leaves the match clock alone and, when it is a frame, reads the
  clock before \<open>deadline\<close>.\<close>

fun tickBefore :: "int \<Rightarrow> HostEvent \<Rightarrow> bool" where
  "tickBefore deadline (Tick now localInput) = (now < deadline)"
| "tickBefore deadline (InputPacket peer payload) = True"
| "tickBefore deadline (StartGame now rnd) = False"

text \<open>The match is still being played, or it has ended because all were infected.\<close>

definition notTimedOut :: "Canvas \<Rightarrow> bool" where
  "notTimedOut s \<longleftrightarrow>
     gameStateRef s = PLAYING \<or> (gameStateRef s = GAME_OVER \<and> gameOverReason s = INFECTED)"

text \<open>A match with the host (a zombie) and one client (the only survivor) within reach of
  each other, started at clock reading 0.\<close>

definition lastEvaderMatch :: Canvas where
  "lastEvaderMatch =
     \<lparr>playersRef =
        [\<lparr>pid = ''host'', nickname = ''h'', x = 100, y = 100, radius = 15, role = ZOMBIE,
          speed = 4.5, isBot = False, dx = 0, dy = 0, wanderAngle = 0, target = None,
          targetX = None, targetY = None\<rparr>,
         \<lparr>pid = ''peer'', nickname = ''p'', x = 100, y = 100, radius = 15, role = SURVIVOR,
          speed = 4.5, isBot = False, dx = 0, dy = 0, wanderAngle = 0, target = None,
          targetX = None, targetY = None\<rparr>],
      obstaclesRef = [],
      gameStateRef = PLAYING,
      gameStartTimeRef = 0,
      clientInputsRef = Map.empty,
      myIdRef = ''host'',
      timeLeft = 180,
      stats = (0, 0),
      gameOverReason = INFECTED\<rparr>"

section \<open>Client reconciliation (the STATE branch of connectToHost)\<close>

record StatePayload =
  spPlayers :: "Player list"
  spTimeLeft :: int
  spGameState :: GameState
  spObstacles :: "Obstacle list"

text \<open>\<open>currentMap\<close>: a JavaScript \<open>Map\<close> built from entries keeps the last entry of a key.\<close>

definition currentMap :: "Player list \<Rightarrow> (string \<rightharpoonup> Player)" where
  "currentMap ps = map_of (rev (map (\<lambda>p. (pid p, p)) ps))"

text \<open>
  The callback of \<open>serverPlayers.map\<close> returns either the local object itself, which it
  has just mutated, or a fresh object. The local objects are held in a store keyed by
  identity (each is in \<open>currentMap\<close> under its own \<open>id\<close>, which is never written), and the
  new array holds references, so that a later mutation of a local object shows in every
  place of the array that refers to it.
\<close>

datatype PlayerRef = Local string | Fresh Player

fun reconcile :: "(string \<rightharpoonup> Player) \<Rightarrow> Player list \<Rightarrow> (string \<rightharpoonup> Player) \<times> PlayerRef list" where
  "reconcile store [] = (store, [])"
| "reconcile store (sp # sps) =
     (case store (pid sp) of
        Some local \<Rightarrow>
          let local1 = local\<lparr>targetX := Some (x sp)\<rparr>;
              local2 = local1\<lparr>targetY := Some (y sp)\<rparr>;
              local3 = local2\<lparr>role := role sp\<rparr>;
              local4 = local3\<lparr>nickname := nickname sp\<rparr>;
              r = reconcile (store(pid sp \<mapsto> local4)) sps
          in (fst r, Local (pid sp) # snd r)
      | None \<Rightarrow>
          let r = reconcile store sps
          in (fst r, Fresh (sp\<lparr>targetX := Some (x sp), targetY := Some (y sp)\<rparr>) # snd r))"

fun deref :: "(string \<rightharpoonup> Player) \<Rightarrow> PlayerRef \<Rightarrow> Player list" where
  "deref store (Local k) = (case store k of Some p \<Rightarrow> [p] | None \<Rightarrow> [])"
| "deref store (Fresh p) = [p]"

definition applyState :: "Canvas \<Rightarrow> StatePayload \<Rightarrow> Canvas" where
  "applyState s payload =
     (let s1 = s\<lparr>gameStateRef := spGameState payload, timeLeft := spTimeLeft payload\<rparr>;
          r = reconcile (currentMap (playersRef s1)) (spPlayers payload);
          ps = concat (map (deref (fst r)) (snd r));
          sv = length (filter (\<lambda>p. role p = SURVIVOR) ps);
          z = length (filter (\<lambda>p. role p \<noteq> SURVIVOR) ps)
      in s1\<lparr>playersRef := ps, stats := (sv, z)\<rparr>)"

text \<open>The last entry of the snapshot that carries a given identity.\<close>

definition lastWithId :: "string \<Rightarrow> Player list \<Rightarrow> Player option" where
  "lastWithId k sps = find (\<lambda>q. pid q = k) (rev sps)"


text \<open>
  The reconciliation in the spec's words, to be compared with \<open>applyState\<close>: a snapshot
  entry with a local copy of the same identity keeps the local copy and overwrites its
  interpolation target, role and nickname (with those of the last snapshot entry of that
  identity); an entry without a local copy is taken as it is, with its target set to its
  position.
\<close>

definition reconciled :: "(string \<rightharpoonup> Player) \<Rightarrow> Player list \<Rightarrow> Player \<Rightarrow> Player" where
  "reconciled store sps sp =
     (case store (pid sp) of
        None \<Rightarrow> sp\<lparr>targetX := Some (x sp), targetY := Some (y sp)\<rparr>
      | Some local \<Rightarrow>
          (case lastWithId (pid sp) sps of
             None \<Rightarrow> local
           | Some sq \<Rightarrow> local\<lparr>nickname := nickname sq, role := role sq,
                               targetX := Some (x sq), targetY := Some (y sq)\<rparr>))"

text \<open>A client that knows the players \<open>peer\<close> and \<open>gone\<close>, and a snapshot that carries
  \<open>peer\<close> at a new position and a player \<open>new\<close> the client has not seen.\<close>

definition sampleClient :: Canvas where
  "sampleClient =
     \<lparr>playersRef =
        [\<lparr>pid = ''peer'', nickname = ''p'', x = 100, y = 100, radius = 15, role = SURVIVOR,
          speed = 4.5, isBot = False, dx = 0, dy = 0, wanderAngle = 0, target = None,
          targetX = Some 90, targetY = Some 100\<rparr>,
         \<lparr>pid = ''gone'', nickname = ''g'', x = 300, y = 300, radius = 15, role = SURVIVOR,
          speed = 4.5, isBot = False, dx = 0, dy = 0, wanderAngle = 0, target = None,
          targetX = Some 300, targetY = Some 300\<rparr>],
      obstaclesRef = [],
      gameStateRef = PLAYING,
      gameStartTimeRef = 0,
      clientInputsRef = Map.empty,
      myIdRef = ''peer'',
      timeLeft = 180,
      stats = (2, 0),
      gameOverReason = INFECTED\<rparr>"

definition sampleSnapshot :: StatePayload where
  "sampleSnapshot =
     \<lparr>spPlayers =
        [\<lparr>pid = ''peer'', nickname = ''q'', x = 130, y = 120, radius = 15, role = ZOMBIE,
          speed = 4.5, isBot = False, dx = 1, dy = 0, wanderAngle = 0, target = None,
          targetX = None, targetY = None\<rparr>,
         \<lparr>pid = ''new'', nickname = ''n'', x = 200, y = 210, radius = 15, role = SURVIVOR,
          speed = 4.5, isBot = False, dx = 0, dy = 0, wanderAngle = 0, target = None,
          targetX = None, targetY = None\<rparr>],
      spTimeLeft = 170,
      spGameState = PLAYING,
      spObstacles = []\<rparr>"

text \<open>A snapshot that carries only \<open>gone\<close>, the second player of \<open>sampleClient\<close>, at a new
  position.\<close>

definition sampleSnapshotGone :: StatePayload where
  "sampleSnapshotGone =
     \<lparr>spPlayers =
        [\<lparr>pid = ''gone'', nickname = ''g2'', x = 330, y = 310, radius = 15, role = ZOMBIE,
          speed = 4.5, isBot = False, dx = 0, dy = 1, wanderAngle = 0, target = None,
          targetX = None, targetY = None\<rparr>],
      spTimeLeft = 160,
      spGameState = PLAYING,
      spObstacles = []\<rparr>"

section \<open>Obstacle generation (generateObstacles)\<close>

text \<open>
  \<open>Math.random()\<close> is a parameter: \<open>rnd n\<close> is the value of the \<open>n\<close>-th call (from 0)
  within one run of the function. Every wall iteration makes four calls and every debris
  iteration three, before its \<open>continue\<close>.
\<close>

definition safeZoneRadius :: real where "safeZoneRadius = 250"
definition WALL_COUNT_LOCAL :: nat where "WALL_COUNT_LOCAL = 50"
definition DEBRIS_COUNT_LOCAL :: nat where "DEBRIS_COUNT_LOCAL = 80"

definition centerDist :: "Obstacle \<Rightarrow> real" where
  "centerDist obs =
     getDistance (ox obs + width obs / 2) (oy obs + height obs / 2) (MAP_WIDTH / 2) (MAP_HEIGHT / 2)"

definition wallAt :: "(nat \<Rightarrow> real) \<Rightarrow> nat \<Rightarrow> Obstacle" where
  "wallAt rnd i =
     (let isHorizontal = rnd (4 * i) > 0.5;
          len = rnd (4 * i + 1) * 400 + 100;
          thickness = 40;
          w = (if isHorizontal then len else thickness);
          h = (if isHorizontal then thickness else len);
          xx = rnd (4 * i + 2) * (MAP_WIDTH - w);
          yy = rnd (4 * i + 3) * (MAP_HEIGHT - h)
      in \<lparr>ox = xx, oy = yy, width = w, height = h\<rparr>)"

definition debrisAt :: "(nat \<Rightarrow> real) \<Rightarrow> nat \<Rightarrow> Obstacle" where
  "debrisAt rnd i =
     (let base = 4 * WALL_COUNT_LOCAL + 3 * i;
          size = rnd base * 50 + 30;
          xx = rnd (base + 1) * (MAP_WIDTH - size);
          yy = rnd (base + 2) * (MAP_HEIGHT - size)
      in \<lparr>ox = xx, oy = yy, width = size, height = size\<rparr>)"

text \<open>One iteration of either loop: skip the candidate or push it.\<close>

definition pushUnlessSafeZone :: "Obstacle list \<Rightarrow> Obstacle \<Rightarrow> Obstacle list" where
  "pushUnlessSafeZone obstacles obs =
     (if centerDist obs < safeZoneRadius then obstacles else obstacles @ [obs])"

definition generateObstacles :: "(nat \<Rightarrow> real) \<Rightarrow> Obstacle list" where
  "generateObstacles rnd =
     (let walls = foldl (\<lambda>obstacles i. pushUnlessSafeZone obstacles (wallAt rnd i)) []
                    [0 ..< WALL_COUNT_LOCAL]
      in foldl (\<lambda>obstacles i. pushUnlessSafeZone obstacles (debrisAt rnd i)) walls
           [0 ..< DEBRIS_COUNT_LOCAL])"

text \<open>A rectangle overlaps the safe zone when its nearest point to the map centre is
  closer than \<open>safeZoneRadius\<close>.\<close>

definition overlapsSafeZone :: "Obstacle \<Rightarrow> bool" where
  "overlapsSafeZone obs \<longleftrightarrow>
     getDistance (MAP_WIDTH / 2) (MAP_HEIGHT / 2)
       (clamp (MAP_WIDTH / 2) (ox obs) (ox obs + width obs))
       (clamp (MAP_HEIGHT / 2) (oy obs) (oy obs + height obs)) < safeZoneRadius"

text \<open>A sequence of draws: a horizontal wall of length 400 at (1300, 1230) first; every
  later draw is 1/2.\<close>

definition drawsWallNearCentre :: "nat \<Rightarrow> real" where
  "drawsWallNearCentre n =
     (if n = 0 then 3 / 4 else if n = 1 then 3 / 4 else if n = 2 then 13 / 21 else 1 / 2)"

section \<open>Bot steering (updateBot)\<close>

text \<open>In this section \<open>bt\<close> stands for the source's parameter \<open>bot\<close>, and \<open>rnd n\<close> for the
  value of the \<open>n\<close>-th call of \<open>Math.random()\<close> within one run of \<open>updateBot\<close>.\<close>

text \<open>\<open>getLineRectIntersection\<close> on the segment from \<open>(x1, y1)\<close> to \<open>(x2, y2)\<close>; the result
  is the midpoint it reports (the obstacle it also returns is its argument).\<close>

definition getLineRectIntersection ::
    "real \<Rightarrow> real \<Rightarrow> real \<Rightarrow> real \<Rightarrow> Obstacle \<Rightarrow> real \<Rightarrow> (real \<times> real) option" where
  "getLineRectIntersection x1 y1 x2 y2 obs padding =
     (let minX = min x1 x2; maxX = max x1 x2;
          minY = min y1 y2; maxY = max y1 y2;
          obsLeft = ox obs - padding;
          obsRight = ox obs + width obs + padding;
          obsTop = oy obs - padding;
          obsBottom = oy obs + height obs + padding
      in if maxX < obsLeft \<or> minX > obsRight \<or> maxY < obsTop \<or> minY > obsBottom then None
         else
           let midX = (x1 + x2) / 2;
               midY = (y1 + y2) / 2
           in if midX > obsLeft \<and> midX < obsRight \<and> midY > obsTop \<and> midY < obsBottom
              then Some (midX, midY)
              else None)"

text \<open>\<open>Math.atan2 y x\<close>: the angle of \<open>(x, y)\<close> in \<open>(-\<pi>, \<pi>]\<close>, 0 at the origin.\<close>

definition atan2 :: "real \<Rightarrow> real \<Rightarrow> real" where
  "atan2 yy xx = Arg (Complex xx yy)"

text \<open>The variables of the perception loop; \<open>nearestDist = None\<close> stands for \<open>Infinity\<close>.\<close>

record Perception =
  nearestEnemy :: "Player option"
  nearestDist :: "real option"
  sepX :: real
  sepY :: real
  neighborCount :: nat

definition perceive :: "Player \<Rightarrow> Obstacle list \<Rightarrow> Perception \<Rightarrow> Player \<Rightarrow> Perception" where
  "perceive bt obstacles acc other =
     (if pid bt = pid other then acc
      else
        let d = getDistance (x bt) (y bt) (x other) (y other);
            separationRadius = 60;
            acc1 = (if d < separationRadius then
                      let force = (separationRadius - d) / separationRadius
                      in acc\<lparr>sepX := sepX acc + (x bt - x other) / (d + 0.1) * force,
                             sepY := sepY acc + (y bt - y other) / (d + 0.1) * force,
                             neighborCount := neighborCount acc + 1\<rparr>
                    else acc);
            isEnemy = ((role bt = ZOMBIE \<and> role other = SURVIVOR) \<or>
                       (role bt = SURVIVOR \<and> role other = ZOMBIE))
        in if isEnemy then
             let viewRange = (if role bt = SURVIVOR then VIEW_DISTANCE * 1.5 else VIEW_DISTANCE * 1.3)
             in if d < viewRange \<and> (case nearestDist acc1 of None \<Rightarrow> True | Some nd \<Rightarrow> d < nd) then
                  let blocked =
                        (if d > 60 then
                           list_ex (\<lambda>obs. getLineRectIntersection (x bt) (y bt) (x other) (y other) obs 5 \<noteq> None)
                             obstacles
                         else False)
                  in if \<not> blocked then acc1\<lparr>nearestDist := Some d, nearestEnemy := Some other\<rparr>
                     else acc1
                else acc1
           else acc1)"

text \<open>The resampling loop of the roam branch; attempt \<open>tries\<close> makes the calls
  \<open>2 * tries\<close> and \<open>2 * tries + 1\<close> of \<open>Math.random()\<close>.\<close>

function resampleTarget :: "(nat \<Rightarrow> real) \<Rightarrow> Player \<Rightarrow> bool \<Rightarrow> nat \<Rightarrow> Player" where
  "resampleTarget rnd bt valid tries =
     (if \<not> valid \<and> tries < 10 then
        let tx = rnd (2 * tries) * (MAP_WIDTH - 100) + 50;
            ty = rnd (2 * tries + 1) * (MAP_HEIGHT - 100) + 50
        in if getDistance (x bt) (y bt) tx ty > 400
           then resampleTarget rnd (bt\<lparr>target := Some \<lparr>px = tx, py = ty\<rparr>\<rparr>) True (tries + 1)
           else resampleTarget rnd bt valid (tries + 1)
      else bt)"
  by pat_completeness auto
termination
  by (relation "measure (\<lambda>(rnd, bt, valid, tries). 10 - tries)") auto

declare resampleTarget.simps [simp del]

text \<open>
  Step 2 of \<open>updateBot\<close>: the bt (its \<open>target\<close> may be rewritten) and the raw desired
  direction. Reading \<open>bt.target!.y\<close> when \<open>bt.target\<close> is \<open>undefined\<close> is a TypeError.
\<close>

definition intent :: "(nat \<Rightarrow> real) \<Rightarrow> Player \<Rightarrow> Player option \<Rightarrow> error + Player \<times> real \<times> real" where
  "intent rnd bt enemy =
     (case enemy of
        Some e \<Rightarrow>
          let angle = atan2 (y e - y bt) (x e - x bt);
              dir = (if role bt = ZOMBIE then (cos angle, sin angle) else (- cos angle, - sin angle));
              bt1 = (if rnd 0 < 0.005 then bt\<lparr>target := None\<rparr> else bt)
          in Inr (bt1, dir)
      | None \<Rightarrow>
          let bt1 = (if (case target bt of None \<Rightarrow> True
                          | Some t \<Rightarrow> getDistance (x bt) (y bt) (px t) (py t) < 60)
                      then resampleTarget rnd bt False 0 else bt)
          in case target bt1 of
               None \<Rightarrow> Inl TypeError
             | Some t \<Rightarrow>
                 let angle = atan2 (py t - y bt1) (px t - x bt1)
                 in Inr (bt1, cos angle, sin angle))"

text \<open>The first obstacle that passes the broad phase and whose padded rectangle holds the
  midpoint of the look-ahead segment.\<close>

definition lookAhead :: real where "lookAhead = 60"

definition findWallHit :: "Player \<Rightarrow> real \<Rightarrow> real \<Rightarrow> Obstacle list \<Rightarrow> Obstacle option" where
  "findWallHit bt tX tY obstacles =
     find (\<lambda>obs. \<not> (x bt + lookAhead < ox obs \<or> x bt - lookAhead > ox obs + width obs) \<and>
                 getLineRectIntersection (x bt) (y bt)
                   (x bt + tX * lookAhead) (y bt + tY * lookAhead) obs 10 \<noteq> None)
       obstacles"

text \<open>The axis-aligned surface normal \<open>(nx, ny)\<close> of the wall that was hit.\<close>

definition surfaceNormal :: "Player \<Rightarrow> Obstacle \<Rightarrow> real \<times> real" where
  "surfaceNormal bt wallHit =
     (let ddx = x bt - (ox wallHit + width wallHit / 2);
          ddy = y bt - (oy wallHit + height wallHit / 2);
          hw = width wallHit / 2;
          hh = height wallHit / 2;
          oxx = \<bar>ddx\<bar> - hw;
          oyy = \<bar>ddy\<bar> - hh
      in if oxx > oyy then (sgn ddx, 0) else (0, sgn ddy))"

text \<open>The body of \<open>if (wallHit)\<close>: the desired direction after sliding.\<close>

definition wallSlide :: "Player \<Rightarrow> Obstacle \<Rightarrow> real \<Rightarrow> real \<Rightarrow> real \<times> real" where
  "wallSlide bt wallHit tX tY =
     (let n = surfaceNormal bt wallHit;
          nx = fst n; ny = snd n;
          dot = tX * nx + tY * ny
      in if dot < 0 then
           let tX1 = tX - nx * dot;
               tY1 = tY - ny * dot;
               tX2 = tX1 + nx * 0.5;
               tY2 = tY1 + ny * 0.5;
               slideLen = sqrt (tX2 * tX2 + tY2 * tY2)
           in if slideLen > 0.001 then (tX2 / slideLen, tY2 / slideLen) else (tX2, tY2)
         else (tX, tY))"

text \<open>Step 3 of \<open>updateBot\<close>: the wall that was hit, if any, and the direction after it.\<close>

definition slideStage :: "Player \<Rightarrow> Obstacle list \<Rightarrow> real \<Rightarrow> real \<Rightarrow> Obstacle option \<times> real \<times> real" where
  "slideStage bt obstacles tX tY =
     (case findWallHit bt tX tY obstacles of
        Some wallHit \<Rightarrow> (Some wallHit, wallSlide bt wallHit tX tY)
      | None \<Rightarrow> (None, tX, tY))"

definition updateBot :: "(nat \<Rightarrow> real) \<Rightarrow> Player \<Rightarrow> Player list \<Rightarrow> Obstacle list \<Rightarrow> error + Player" where
  "updateBot rnd bt allPlayers obstacles =
     (if \<not> isBot bt then Inr bt
      else
        let baseSpeed = (if role bt = ZOMBIE then PLAYER_SPEED * ZOMBIE_SPEED_MULTIPLIER
                         else PLAYER_SPEED);
            seen = foldl (perceive bt obstacles)
                     \<lparr>nearestEnemy = None, nearestDist = None, sepX = 0, sepY = 0, neighborCount = 0\<rparr>
                     allPlayers;
            sx = (if neighborCount seen > 0 then sepX seen / real (neighborCount seen) else sepX seen);
            sy = (if neighborCount seen > 0 then sepY seen / real (neighborCount seen) else sepY seen)
        in case intent rnd bt (nearestEnemy seen) of
             Inl err \<Rightarrow> Inl err
           | Inr (bt1, rawX, rawY) \<Rightarrow>
               let tX = rawX + sx * 2.0;
                   tY = rawY + sy * 2.0;
                   len = sqrt (tX * tX + tY * tY);
                   uX = (if len > 0.001 then tX / len else tX);
                   uY = (if len > 0.001 then tY / len else tY);
                   slid = slideStage bt1 obstacles uX uY;
                   smoothing = (if fst slid \<noteq> None then 0.5 else 0.1);
                   bt2 = bt1\<lparr>dx := lerp (dx bt1) (fst (snd slid)) smoothing\<rparr>;
                   bt3 = bt2\<lparr>dy := lerp (dy bt2) (snd (snd slid)) smoothing\<rparr>;
                   bt4 = bt3\<lparr>x := x bt3 + dx bt3 * baseSpeed\<rparr>;
                   bt5 = bt4\<lparr>y := y bt4 + dy bt4 * baseSpeed\<rparr>
               in Inr (resolveCollision bt5 obstacles))"


text \<open>Every draw is 1/2, so every sampled wander point is the map centre (1250, 1250).\<close>

definition drawsMid :: "nat \<Rightarrow> real" where
  "drawsMid n = 1 / 2"

text \<open>A bot at the map centre that has no wander target.\<close>

definition wanderingBot :: Player where
  "wanderingBot =
     \<lparr>pid = ''bot'', nickname = ''b'', x = 1250, y = 1250, radius = 15, role = SURVIVOR,
      speed = 4.5, isBot = True, dx = 0, dy = 0, wanderAngle = 0, target = None,
      targetX = None, targetY = None\<rparr>"



section \<open>Collision resolution: what holds on return\<close>




























section \<open>Host tick: velocity smoothing and snap\<close>

lemma dxdy_foldl_pushOut:
  "dx (foldl pushOut q obstacles) = dx q \<and> dy (foldl pushOut q obstacles) = dy q \<and>
   role (foldl pushOut q obstacles) = role q \<and> pid (foldl pushOut q obstacles) = pid q"
  by (induction obstacles arbitrary: q) (simp_all add: pushOut_def Let_def)

lemma resolveCollision_keeps:
  "dx (resolveCollision q obstacles) = dx q" "dy (resolveCollision q obstacles) = dy q"
  "role (resolveCollision q obstacles) = role q" "pid (resolveCollision q obstacles) = pid q"
  by (simp_all add: resolveCollision_def dxdy_foldl_pushOut clampToMap_def Let_def)

lemma snapVelocity_dx: "dx (snapVelocity q) = (if \<bar>dx q\<bar> < 0.01 then 0 else dx q)"
  by (simp add: snapVelocity_def Let_def)

lemma snapVelocity_dy: "dy (snapVelocity q) = (if \<bar>dy q\<bar> < 0.01 then 0 else dy q)"
  by (simp add: snapVelocity_def Let_def)

lemma component_le_magnitude: "\<bar>a\<bar> \<le> sqrt (a\<^sup>2 + b\<^sup>2)"
  by (rule real_le_rsqrt) simp

text \<open>
  Claim C6, as the code has it. Smoothing is \<open>new = old + (target - old) * 0.2\<close> on each
  component. The snap is per component: \<open>dx\<close> and \<open>dy\<close> are each set to 0 when their
  absolute value is below 0.01 and kept otherwise. So a velocity of magnitude below 0.01
  becomes exactly (0, 0), and the snap leaves a velocity unchanged exactly when each
  component is 0 or at least 0.01 in absolute value. Integration and collision do not
  touch the velocity, so this is the velocity \<open>movePlayer\<close> returns.
\<close>

theorem snapVelocity_per_component:
  "dx (smoothVelocity p ix iy) = dx p + (ix - dx p) * 0.2 \<and>
   dy (smoothVelocity p ix iy) = dy p + (iy - dy p) * 0.2 \<and>
   dx (snapVelocity q) = (if \<bar>dx q\<bar> < 0.01 then 0 else dx q) \<and>
   dy (snapVelocity q) = (if \<bar>dy q\<bar> < 0.01 then 0 else dy q) \<and>
   (sqrt ((dx q)\<^sup>2 + (dy q)\<^sup>2) < 0.01 \<longrightarrow>
      dx (snapVelocity q) = 0 \<and> dy (snapVelocity q) = 0) \<and>
   (snapVelocity q = q) = ((dx q = 0 \<or> 0.01 \<le> \<bar>dx q\<bar>) \<and> (dy q = 0 \<or> 0.01 \<le> \<bar>dy q\<bar>)) \<and>
   dx (movePlayer s localInput p) =
     dx (snapVelocity (smoothVelocity p (fst (inputFor s localInput p)) (snd (inputFor s localInput p)))) \<and>
   dy (movePlayer s localInput p) =
     dy (snapVelocity (smoothVelocity p (fst (inputFor s localInput p)) (snd (inputFor s localInput p))))"
proof -
  have smooth: "dx (smoothVelocity p ix iy) = dx p + (ix - dx p) * 0.2"
    "dy (smoothVelocity p ix iy) = dy p + (iy - dy p) * 0.2"
    by (simp_all add: smoothVelocity_def lerp_def Let_def)
  have small: "dx (snapVelocity q) = 0 \<and> dy (snapVelocity q) = 0"
    if "sqrt ((dx q)\<^sup>2 + (dy q)\<^sup>2) < 0.01"
  proof -
    have "\<bar>dx q\<bar> < 0.01" using component_le_magnitude [of "dx q" "dy q"] that by linarith
    moreover have "sqrt ((dy q)\<^sup>2 + (dx q)\<^sup>2) < 0.01"
      using that by (simp only: add.commute)
    then have "\<bar>dy q\<bar> < 0.01" using component_le_magnitude [of "dy q" "dx q"] by linarith
    ultimately show ?thesis by (simp add: snapVelocity_dx snapVelocity_dy)
  qed
  have large: "(snapVelocity q = q) = ((dx q = 0 \<or> 0.01 \<le> \<bar>dx q\<bar>) \<and> (dy q = 0 \<or> 0.01 \<le> \<bar>dy q\<bar>))"
    by (cases q) (auto simp: snapVelocity_def Let_def)
  have mv: "dx (movePlayer s localInput p) =
      dx (snapVelocity (smoothVelocity p (fst (inputFor s localInput p)) (snd (inputFor s localInput p))))"
    "dy (movePlayer s localInput p) =
      dy (snapVelocity (smoothVelocity p (fst (inputFor s localInput p)) (snd (inputFor s localInput p))))"
    by (simp_all add: movePlayer_def Let_def resolveCollision_keeps)
  show ?thesis
    using smooth small large mv snapVelocity_dx [of q] snapVelocity_dy [of q] by blast
qed

text \<open>
  Claim C6 as stated fails in its second half: the velocity (0.5, 0.005) has magnitude at
  least 0.01, and the snap step changes it (to (0.5, 0)).
\<close>

theorem snapVelocity_counterexample:
  "0.01 \<le> sqrt ((1 / 2)\<^sup>2 + (1 / 200)\<^sup>2 :: real) \<and>
   snapVelocity
     \<lparr>pid = ''a'', nickname = ''a'', x = 100, y = 100, radius = 15, role = SURVIVOR,
      speed = 4.5, isBot = False, dx = 1 / 2, dy = 1 / 200, wanderAngle = 0, target = None,
      targetX = None, targetY = None\<rparr> \<noteq>
     \<lparr>pid = ''a'', nickname = ''a'', x = 100, y = 100, radius = 15, role = SURVIVOR,
      speed = 4.5, isBot = False, dx = 1 / 2, dy = 1 / 200, wanderAngle = 0, target = None,
      targetX = None, targetY = None\<rparr>"
proof -
  have "0.01 \<le> sqrt ((1 / 2)\<^sup>2 + (1 / 200)\<^sup>2 :: real)"
    by (rule real_le_rsqrt) (simp add: power2_eq_square)
  then show ?thesis by (simp add: snapVelocity_def Let_def)
qed

text \<open>
  The theorem at the velocity (0.5, 0.005).
\<close>

theorem snapVelocity_per_component_witness:
  "dx (snapVelocity
     \<lparr>pid = ''a'', nickname = ''a'', x = 100, y = 100, radius = 15, role = SURVIVOR,
      speed = 4.5, isBot = False, dx = 1 / 2, dy = 1 / 200, wanderAngle = 0, target = None,
      targetX = None, targetY = None\<rparr>) = 1 / 2 \<and>
   dy (snapVelocity
     \<lparr>pid = ''a'', nickname = ''a'', x = 100, y = 100, radius = 15, role = SURVIVOR,
      speed = 4.5, isBot = False, dx = 1 / 2, dy = 1 / 200, wanderAngle = 0, target = None,
      targetX = None, targetY = None\<rparr>) = 0"
  using snapVelocity_per_component
    [of "\<lparr>pid = ''a'', nickname = ''a'', x = 100, y = 100, radius = 15, role = SURVIVOR,
      speed = 4.5, isBot = False, dx = 1 / 2, dy = 1 / 200, wanderAngle = 0, target = None,
      targetX = None, targetY = None\<rparr>" 0 0
      "\<lparr>pid = ''a'', nickname = ''a'', x = 100, y = 100, radius = 15, role = SURVIVOR,
      speed = 4.5, isBot = False, dx = 1 / 2, dy = 1 / 200, wanderAngle = 0, target = None,
      targetX = None, targetY = None\<rparr>"]
  by simp

section \<open>Host tick: roles, timer and the end of the match\<close>

lemma movePlayer_keeps:
  "role (movePlayer s localInput p) = role p" "pid (movePlayer s localInput p) = pid p"
  by (simp_all add: movePlayer_def Let_def resolveCollision_keeps snapVelocity_def smoothVelocity_def)

lemma infect_keeps:
  "pid (infect zs p) = pid p" "role p = ZOMBIE \<Longrightarrow> role (infect zs p) = ZOMBIE"
  by (simp_all add: infect_def)

lemma updateTimer_keeps:
  "playersRef (updateTimer s now) = playersRef s"
  "gameStartTimeRef (updateTimer s now) = gameStartTimeRef s"
  by (simp_all add: updateTimer_def endGame_def Let_def)

lemma updateInfection_players:
  "playersRef (updateInfection s) =
     (if gameStateRef s = PLAYING
      then map (infect (filter (\<lambda>p. role p = ZOMBIE) (playersRef s))) (playersRef s)
      else playersRef s)"
  by (simp add: updateInfection_def endGame_def Let_def)

lemma updateHost_players:
  "playersRef (updateHost s now localInput) =
     (if gameStateRef s = GAME_OVER then playersRef s
      else if gameStateRef (updateTimer s now) = PLAYING
      then map (infect (filter (\<lambda>p. role p = ZOMBIE)
                  (map (movePlayer (updateTimer s now) localInput) (playersRef s))))
             (map (movePlayer (updateTimer s now) localInput) (playersRef s))
      else map (movePlayer (updateTimer s now) localInput) (playersRef s))"
  by (simp add: updateHost_def Let_def updateInfection_players updateTimer_keeps)

lemma updateHost_length: "length (playersRef (updateHost s now localInput)) = length (playersRef s)"
  by (simp add: updateHost_players)

lemma updateHost_pid:
  "i < length (playersRef s) \<Longrightarrow>
   pid (playersRef (updateHost s now localInput) ! i) = pid (playersRef s ! i)"
  by (simp add: updateHost_players infect_keeps movePlayer_keeps)

lemma updateHost_zombie:
  "i < length (playersRef s) \<Longrightarrow> role (playersRef s ! i) = ZOMBIE \<Longrightarrow>
   role (playersRef (updateHost s now localInput) ! i) = ZOMBIE"
  by (simp add: updateHost_players infect_keeps movePlayer_keeps)

lemma startGame_keeps:
  assumes "startGame s now rnd = Inr s1" "i < length (playersRef s)"
  shows "length (playersRef s1) = length (playersRef s)"
    and "pid (playersRef s1 ! i) = pid (playersRef s ! i)"
    and "role (playersRef s ! i) = ZOMBIE \<Longrightarrow> role (playersRef s1 ! i) = ZOMBIE"
  using assms by (auto simp: startGame_def Let_def nth_list_update split: if_splits)

lemma hostStep_keeps:
  assumes "hostStep s e = Inr s1" "i < length (playersRef s)"
  shows "length (playersRef s1) = length (playersRef s)"
    and "pid (playersRef s1 ! i) = pid (playersRef s ! i)"
    and "role (playersRef s ! i) = ZOMBIE \<Longrightarrow> role (playersRef s1 ! i) = ZOMBIE"
proof -
  show "length (playersRef s1) = length (playersRef s)"
    using assms startGame_keeps(1) by (cases e) (auto simp: updateHost_length)
  show "pid (playersRef s1 ! i) = pid (playersRef s ! i)"
    using assms startGame_keeps(2) by (cases e) (auto simp: updateHost_pid)
  show "role (playersRef s ! i) = ZOMBIE \<Longrightarrow> role (playersRef s1 ! i) = ZOMBIE"
    using assms startGame_keeps(3) by (cases e) (auto simp: updateHost_zombie)
qed

text \<open>
  Claim C2. Over any sequence of host events of a match (frames of \<open>updateHost\<close>, \<open>INPUT\<close>
  packets, \<open>startGame\<close>) that runs without error, the player list keeps its length and its
  identities, and a player that is a zombie stays a zombie.
\<close>

theorem role_monotonic:
  assumes "runHost s events = Inr s1" and "i < length (playersRef s)"
    and "role (playersRef s ! i) = ZOMBIE"
  shows "length (playersRef s1) = length (playersRef s) \<and>
         pid (playersRef s1 ! i) = pid (playersRef s ! i) \<and>
         role (playersRef s1 ! i) = ZOMBIE"
  using assms
proof (induction events arbitrary: s)
  case Nil
  then show ?case by simp
next
  case (Cons e es)
  from Cons.prems(1) obtain s2 where step: "hostStep s e = Inr s2" and rest: "runHost s2 es = Inr s1"
    by (auto split: sum.splits)
  have len: "length (playersRef s2) = length (playersRef s)"
    and same: "pid (playersRef s2 ! i) = pid (playersRef s ! i)"
    and zomb: "role (playersRef s2 ! i) = ZOMBIE"
    using hostStep_keeps [OF step Cons.prems(2)] Cons.prems(3) by simp_all
  have "length (playersRef s1) = length (playersRef s2) \<and>
        pid (playersRef s1 ! i) = pid (playersRef s2 ! i) \<and>
        role (playersRef s1 ! i) = ZOMBIE"
    using Cons.IH [OF rest] Cons.prems(2) len zomb by simp
  then show ?case using len same by simp
qed

lemma ticks_never_fail:
  "list_all (tickBefore deadline) events \<Longrightarrow> \<exists>s1. runHost s events = Inr s1"
proof (induction events arbitrary: s)
  case Nil
  then show ?case by simp
next
  case (Cons e es)
  then show ?case by (cases e) simp_all
qed

lemma updateTimer_state:
  "gameStateRef s = PLAYING \<Longrightarrow>
   gameStateRef (updateTimer s now) =
     (if gameStartTimeRef s + GAME_DURATION * 1000 \<le> now then GAME_OVER else PLAYING)"
  "gameStateRef s = PLAYING \<Longrightarrow>
   gameOverReason (updateTimer s now) =
     (if gameStartTimeRef s + GAME_DURATION * 1000 \<le> now then TIME_UP else gameOverReason s)"
  "gameStateRef s = PLAYING \<Longrightarrow>
   timeLeft (updateTimer s now) = max 0 (GAME_DURATION - (now - gameStartTimeRef s) div 1000)"
  by (auto simp: updateTimer_def endGame_def Let_def GAME_DURATION_def)

lemma updateInfection_keeps:
  "timeLeft (updateInfection s) = timeLeft s"
  "gameStartTimeRef (updateInfection s) = gameStartTimeRef s"
  by (simp_all add: updateInfection_def endGame_def Let_def)

lemma updateInfection_state:
  "gameStateRef (updateInfection s) =
     (if gameStateRef s = PLAYING \<and> list_all (\<lambda>p. role p \<noteq> SURVIVOR) (playersRef s) \<and>
         length (playersRef s) > 1
      then GAME_OVER else gameStateRef s)"
  "gameOverReason (updateInfection s) =
     (if gameStateRef s = PLAYING \<and> list_all (\<lambda>p. role p \<noteq> SURVIVOR) (playersRef s) \<and>
         length (playersRef s) > 1
      then INFECTED else gameOverReason s)"
  by (auto simp: updateInfection_def endGame_def Let_def list_all_iff filter_empty_conv)

lemma moved_no_survivor:
  "list_all (\<lambda>p. role p \<noteq> SURVIVOR) (map (movePlayer s1 localInput) ps) =
   list_all (\<lambda>p. role p \<noteq> SURVIVOR) ps"
  by (simp add: list_all_iff movePlayer_keeps)

lemma updateHost_late:
  assumes "gameStateRef s = PLAYING" "gameStartTimeRef s + GAME_DURATION * 1000 \<le> now"
  shows "gameStateRef (updateHost s now localInput) = GAME_OVER"
    and "gameOverReason (updateHost s now localInput) = TIME_UP"
    and "timeLeft (updateHost s now localInput) = 0"
proof -
  have lt: "GAME_DURATION - (now - gameStartTimeRef s) div 1000 \<le> 0"
    using assms(2) by (simp add: GAME_DURATION_def)
  show "gameStateRef (updateHost s now localInput) = GAME_OVER"
    "gameOverReason (updateHost s now localInput) = TIME_UP"
    using assms by (simp_all add: updateHost_def Let_def updateInfection_state updateTimer_state)
  show "timeLeft (updateHost s now localInput) = 0"
    using assms(1) lt by (simp add: updateHost_def Let_def updateInfection_keeps updateTimer_state)
qed

lemma updateHost_early:
  assumes "gameStateRef s = PLAYING" "now < gameStartTimeRef s + GAME_DURATION * 1000"
  shows "gameStateRef (updateHost s now localInput) =
           (if list_all (\<lambda>p. role p \<noteq> SURVIVOR) (playersRef s) \<and> length (playersRef s) > 1
            then GAME_OVER else PLAYING)"
    and "gameOverReason (updateHost s now localInput) =
           (if list_all (\<lambda>p. role p \<noteq> SURVIVOR) (playersRef s) \<and> length (playersRef s) > 1
            then INFECTED else gameOverReason s)"
  using assms
  by (simp_all add: updateHost_def Let_def updateInfection_state updateTimer_state
      updateTimer_keeps moved_no_survivor)

lemma updateHost_timeLeft:
  "gameStateRef s = PLAYING \<Longrightarrow>
   timeLeft (updateHost s now localInput) = max 0 (GAME_DURATION - (now - gameStartTimeRef s) div 1000)"
  by (simp add: updateHost_def Let_def updateInfection_keeps updateTimer_state)

lemma updateHost_start: "gameStartTimeRef (updateHost s now localInput) = gameStartTimeRef s"
  by (simp add: updateHost_def Let_def updateInfection_keeps updateTimer_keeps)

lemma hostStep_early:
  assumes "notTimedOut s" "tickBefore (gameStartTimeRef s + GAME_DURATION * 1000) e"
  shows "\<exists>s1. hostStep s e = Inr s1 \<and> notTimedOut s1 \<and> gameStartTimeRef s1 = gameStartTimeRef s"
proof (cases e)
  case (Tick now localInput)
  show ?thesis
  proof (cases "gameStateRef s = PLAYING")
    case True
    then show ?thesis
      using assms Tick updateHost_early [OF True, of now localInput]
      by (simp add: notTimedOut_def updateHost_start)
  next
    case False
    then have "updateHost s now localInput = s" using assms(1)
      by (simp add: notTimedOut_def updateHost_def)
    then show ?thesis using assms(1) Tick by simp
  qed
next
  case (InputPacket peer payload)
  then show ?thesis using assms(1) by (simp add: notTimedOut_def)
next
  case (StartGame now rnd)
  then show ?thesis using assms(2) by simp
qed

lemma runHost_early:
  assumes "notTimedOut s" "list_all (tickBefore (gameStartTimeRef s + GAME_DURATION * 1000)) events"
  shows "\<exists>s1. runHost s events = Inr s1 \<and> notTimedOut s1 \<and> gameStartTimeRef s1 = gameStartTimeRef s"
  using assms
proof (induction events arbitrary: s)
  case Nil
  then show ?case by simp
next
  case (Cons e es)
  from Cons.prems obtain s2 where step: "hostStep s e = Inr s2" and inv: "notTimedOut s2"
    and st: "gameStartTimeRef s2 = gameStartTimeRef s"
    using hostStep_early [of s e] by auto
  have "list_all (tickBefore (gameStartTimeRef s2 + GAME_DURATION * 1000)) es"
    using Cons.prems(2) st by simp
  from Cons.IH [OF inv this] show ?case using step st by simp
qed

text \<open>
  Claim C4. In a playing session every frame sets the remaining time to
  \<open>max 0 (GAME_DURATION - \<lfloor>(now - start) / 1000\<rfloor>)\<close>, a function of the clock reading and
  the start time alone. After any events whose frames all read the clock before
  \<open>start + GAME_DURATION * 1000\<close>, however many and however spaced, the run has not
  failed and the session is still playing, unless it has ended because all were infected;
  if it is playing, the first frame that reads the clock at or after that instant ends
  the match with reason \<open>TIME_UP\<close> and remaining time 0.
\<close>

theorem time_up_on_first_late_tick:
  assumes playing: "gameStateRef s = PLAYING"
    and early: "list_all (tickBefore (gameStartTimeRef s + GAME_DURATION * 1000)) events"
    and late: "gameStartTimeRef s + GAME_DURATION * 1000 \<le> now"
  shows "timeLeft (updateHost s t localInput) =
           max 0 (GAME_DURATION - (t - gameStartTimeRef s) div 1000) \<and>
         (\<exists>s1. runHost s events = Inr s1 \<and>
            ((gameStateRef s1 = PLAYING \<and>
              gameStateRef (updateHost s1 now localInput) = GAME_OVER \<and>
              gameOverReason (updateHost s1 now localInput) = TIME_UP \<and>
              timeLeft (updateHost s1 now localInput) = 0) \<or>
             (gameStateRef s1 = GAME_OVER \<and> gameOverReason s1 = INFECTED)))"
proof -
  have "notTimedOut s" using playing by (simp add: notTimedOut_def)
  from runHost_early [OF this early] obtain s1 where run: "runHost s events = Inr s1"
    and inv: "notTimedOut s1" and st: "gameStartTimeRef s1 = gameStartTimeRef s"
    by auto
  have "(gameStateRef s1 = PLAYING \<and>
              gameStateRef (updateHost s1 now localInput) = GAME_OVER \<and>
              gameOverReason (updateHost s1 now localInput) = TIME_UP \<and>
              timeLeft (updateHost s1 now localInput) = 0) \<or>
             (gameStateRef s1 = GAME_OVER \<and> gameOverReason s1 = INFECTED)"
  proof (cases "gameStateRef s1 = PLAYING")
    case True
    then show ?thesis using updateHost_late [OF True, of now localInput] late st by simp
  next
    case False
    then show ?thesis using inv by (simp add: notTimedOut_def)
  qed
  then show ?thesis using run updateHost_timeLeft [OF playing] by simp
qed

text \<open>
  Claim C3, as the code has it. If the session is playing with more than one player, an
  evader exists before the frame at \<open>t1\<close> and none after it, then the session is still
  playing after that frame, and the next frame (at \<open>t2\<close>) ends the match: with reason
  \<open>INFECTED\<close> when \<open>t2\<close> is before \<open>start + GAME_DURATION * 1000\<close>, with reason \<open>TIME_UP\<close>
  otherwise, because the timer is tested first. In a frame of a playing session that reads
  the clock before that instant, the match ends exactly when no evader is in the list at
  the start of the frame and more than one player is present.
\<close>

theorem all_infected_ends_next_tick:
  assumes playing: "gameStateRef s = PLAYING"
    and evader: "\<not> list_all (\<lambda>p. role p \<noteq> SURVIVOR) (playersRef s)"
    and infected: "list_all (\<lambda>p. role p \<noteq> SURVIVOR) (playersRef (updateHost s t1 i1))"
    and several: "length (playersRef s) > 1"
  shows "gameStateRef (updateHost s t1 i1) = PLAYING \<and>
         gameStateRef (updateHost (updateHost s t1 i1) t2 i2) = GAME_OVER \<and>
         gameOverReason (updateHost (updateHost s t1 i1) t2 i2) =
           (if gameStartTimeRef s + GAME_DURATION * 1000 \<le> t2 then TIME_UP else INFECTED) \<and>
         (gameStateRef s0 = PLAYING \<and> t < gameStartTimeRef s0 + GAME_DURATION * 1000 \<longrightarrow>
            (gameStateRef (updateHost s0 t i0) = GAME_OVER) =
              (list_all (\<lambda>p. role p \<noteq> SURVIVOR) (playersRef s0) \<and> length (playersRef s0) > 1))"
proof -
  let ?s1 = "updateHost s t1 i1"
  have not_late: "t1 < gameStartTimeRef s + GAME_DURATION * 1000"
  proof (rule ccontr)
    assume "\<not> t1 < gameStartTimeRef s + GAME_DURATION * 1000"
    then have "gameStateRef (updateTimer s t1) = GAME_OVER"
      using playing by (simp add: updateTimer_state)
    then have "playersRef ?s1 = map (movePlayer (updateTimer s t1) i1) (playersRef s)"
      using playing by (simp add: updateHost_players)
    then show False using evader infected by (simp add: moved_no_survivor)
  qed
  have p1: "gameStateRef ?s1 = PLAYING"
    using updateHost_early(1) [OF playing not_late, of i1] evader by simp
  have len: "length (playersRef ?s1) > 1" using several by (simp add: updateHost_length)
  have st: "gameStartTimeRef ?s1 = gameStartTimeRef s" by (rule updateHost_start)
  have end2: "gameStateRef (updateHost ?s1 t2 i2) = GAME_OVER \<and>
      gameOverReason (updateHost ?s1 t2 i2) =
        (if gameStartTimeRef s + GAME_DURATION * 1000 \<le> t2 then TIME_UP else INFECTED)"
  proof (cases "gameStartTimeRef s + GAME_DURATION * 1000 \<le> t2")
    case True
    then show ?thesis using updateHost_late [OF p1, of t2 i2] st by simp
  next
    case False
    then have "t2 < gameStartTimeRef ?s1 + GAME_DURATION * 1000" using st by simp
    from updateHost_early [OF p1 this, of i2] show ?thesis using infected len False by simp
  qed
  have trig: "gameStateRef s0 = PLAYING \<and> t < gameStartTimeRef s0 + GAME_DURATION * 1000 \<longrightarrow>
            (gameStateRef (updateHost s0 t i0) = GAME_OVER) =
              (list_all (\<lambda>p. role p \<noteq> SURVIVOR) (playersRef s0) \<and> length (playersRef s0) > 1)"
    using updateHost_early(1) [of s0 t i0] by auto
  show ?thesis using p1 end2 trig by blast
qed

lemma lastEvaderMatch_tick:
  "map role (playersRef (updateHost lastEvaderMatch 179000 (0, 0))) = [ZOMBIE, ZOMBIE]"
  by (simp add: lastEvaderMatch_def updateHost_players updateTimer_def movePlayer_def inputFor_def
      smoothVelocity_def snapVelocity_def lerp_def resolveCollision_def clampToMap_def clamp_def
      infect_def getDistance_def GAME_DURATION_def MAP_WIDTH_def MAP_HEIGHT_def Let_def)

text \<open>
  Claim C3 as stated fails when the clock reaches the match duration in the frame after
  the infection: the only evader is infected in the frame at 179000 ms, and the frame at
  180000 ms ends the match with reason \<open>TIME_UP\<close>, not \<open>INFECTED\<close>.
\<close>

theorem all_infected_counterexample:
  "map role (playersRef lastEvaderMatch) = [ZOMBIE, SURVIVOR] \<and>
   gameStateRef lastEvaderMatch = PLAYING \<and>
   map role (playersRef (updateHost lastEvaderMatch 179000 (0, 0))) = [ZOMBIE, ZOMBIE] \<and>
   gameStateRef (updateHost (updateHost lastEvaderMatch 179000 (0, 0)) 180000 (0, 0)) = GAME_OVER \<and>
   gameOverReason (updateHost (updateHost lastEvaderMatch 179000 (0, 0)) 180000 (0, 0)) \<noteq> INFECTED"
proof -
  have start: "gameStateRef lastEvaderMatch = PLAYING" "gameStartTimeRef lastEvaderMatch = 0"
    "map role (playersRef lastEvaderMatch) = [ZOMBIE, SURVIVOR]"
    by (simp_all add: lastEvaderMatch_def)
  have p1: "gameStateRef (updateHost lastEvaderMatch 179000 (0, 0)) = PLAYING"
    using updateHost_early(1) [of lastEvaderMatch 179000 "(0, 0)"]
    by (simp add: lastEvaderMatch_def GAME_DURATION_def)
  have st: "gameStartTimeRef (updateHost lastEvaderMatch 179000 (0, 0)) = 0"
    by (simp add: updateHost_start start)
  have "gameStateRef (updateHost (updateHost lastEvaderMatch 179000 (0, 0)) 180000 (0, 0)) = GAME_OVER"
    "gameOverReason (updateHost (updateHost lastEvaderMatch 179000 (0, 0)) 180000 (0, 0)) = TIME_UP"
    using updateHost_late [OF p1, of 180000 "(0, 0)"] by (simp_all add: st GAME_DURATION_def)
  then show ?thesis using start lastEvaderMatch_tick by simp
qed

text \<open>
  The theorem for \<open>lastEvaderMatch\<close>: infection in the frame at 179000 ms, game over with
  reason \<open>INFECTED\<close> in the frame at 179016 ms.
\<close>

theorem all_infected_ends_next_tick_witness:
  "gameStateRef (updateHost lastEvaderMatch 179000 (0, 0)) = PLAYING \<and>
   gameStateRef (updateHost (updateHost lastEvaderMatch 179000 (0, 0)) 179016 (0, 0)) = GAME_OVER \<and>
   gameOverReason (updateHost (updateHost lastEvaderMatch 179000 (0, 0)) 179016 (0, 0)) = INFECTED"
proof -
  have roles: "list_all (\<lambda>p. role p \<noteq> SURVIVOR) (playersRef (updateHost lastEvaderMatch 179000 (0, 0)))"
  proof -
    have "list_all (\<lambda>p. role p \<noteq> SURVIVOR) (playersRef (updateHost lastEvaderMatch 179000 (0, 0))) =
          list_all (\<lambda>r. r \<noteq> SURVIVOR) (map role (playersRef (updateHost lastEvaderMatch 179000 (0, 0))))"
      by (simp add: list_all_iff)
    then show ?thesis by (simp add: lastEvaderMatch_tick)
  qed
  show ?thesis
    using all_infected_ends_next_tick [of lastEvaderMatch 179000 "(0, 0)" 179016 "(0, 0)" lastEvaderMatch 0 "(0, 0)", OF _ _ roles]
    by (simp add: lastEvaderMatch_def GAME_DURATION_def)
qed

text \<open>
  The theorem for a frame at 1000 ms followed by a frame at 180000 ms.
\<close>

theorem time_up_on_first_late_tick_witness:
  "gameStateRef (updateHost (updateHost lastEvaderMatch 1000 (0, 0)) 180000 (0, 0)) = GAME_OVER \<and>
   gameOverReason (updateHost (updateHost lastEvaderMatch 1000 (0, 0)) 180000 (0, 0)) = TIME_UP \<and>
   timeLeft (updateHost (updateHost lastEvaderMatch 1000 (0, 0)) 180000 (0, 0)) = 0 \<and>
   timeLeft (updateHost lastEvaderMatch 1000 (0, 0)) = 179"
proof -
  have p1: "gameStateRef (updateHost lastEvaderMatch 1000 (0, 0)) = PLAYING"
    using updateHost_early(1) [of lastEvaderMatch 1000 "(0, 0)"]
    by (simp add: lastEvaderMatch_def GAME_DURATION_def)
  show ?thesis
    using time_up_on_first_late_tick
      [of lastEvaderMatch "[Tick 1000 (0, 0)]" 180000 1000 "(0, 0)"] p1
    by (simp add: lastEvaderMatch_def GAME_DURATION_def)
qed

text \<open>
  The theorem over two frames of \<open>lastEvaderMatch\<close>, for the host's player.
\<close>

theorem role_monotonic_witness:
  "length (playersRef (updateHost (updateHost lastEvaderMatch 179000 (0, 0)) 180000 (0, 0))) = 2 \<and>
   pid (playersRef (updateHost (updateHost lastEvaderMatch 179000 (0, 0)) 180000 (0, 0)) ! 0) = ''host'' \<and>
   role (playersRef (updateHost (updateHost lastEvaderMatch 179000 (0, 0)) 180000 (0, 0)) ! 0) = ZOMBIE"
  using role_monotonic
    [of lastEvaderMatch "[Tick 179000 (0, 0), Tick 180000 (0, 0)]"
        "updateHost (updateHost lastEvaderMatch 179000 (0, 0)) 180000 (0, 0)" 0]
  by (simp add: lastEvaderMatch_def)

section \<open>Client reconciliation of a STATE message\<close>

lemma currentMap_pid: "currentMap ps k = Some local \<Longrightarrow> pid local = k \<and> local \<in> set ps"
  by (auto simp: currentMap_def dest!: map_of_SomeD)

lemma find_snoc:
  "find P (xs @ [a]) = (case find P xs of None \<Rightarrow> (if P a then Some a else None) | Some b \<Rightarrow> Some b)"
  by (induction xs) simp_all

lemma lastWithId_Cons:
  "lastWithId k (sp # sps) =
     (case lastWithId k sps of None \<Rightarrow> (if pid sp = k then Some sp else None) | Some q \<Rightarrow> Some q)"
  by (simp add: lastWithId_def find_snoc)

lemma find_Some_mem: "find P xs = Some a \<Longrightarrow> a \<in> set xs \<and> P a"
  by (induction xs) (auto split: if_splits)

lemma lastWithId_Some: "lastWithId k sps = Some q \<Longrightarrow> q \<in> set sps \<and> pid q = k"
  using find_Some_mem [of "\<lambda>q. pid q = k" "rev sps" q] by (simp add: lastWithId_def)

lemma lastWithId_mem: "sp \<in> set sps \<Longrightarrow> \<exists>q. lastWithId (pid sp) sps = Some q"
  by (cases "lastWithId (pid sp) sps") (auto simp: lastWithId_def find_None_iff)

lemma lastWithId_distinct:
  assumes "distinct (map pid sps)" "sp \<in> set sps"
  shows "lastWithId (pid sp) sps = Some sp"
proof -
  obtain q where q: "lastWithId (pid sp) sps = Some q" using lastWithId_mem [OF assms(2)] by blast
  then have "q \<in> set sps" "pid q = pid sp" using lastWithId_Some by blast+
  then have "q = sp" using assms by (meson distinct_map inj_onD)
  then show ?thesis using q by simp
qed

text \<open>The store after the loop: every local object carries the values of the last
  snapshot entry of its identity.\<close>

lemma reconcile_store:
  "fst (reconcile store sps) k =
     (case store k of
        None \<Rightarrow> None
      | Some local \<Rightarrow>
          (case lastWithId k sps of
             None \<Rightarrow> Some local
           | Some sq \<Rightarrow> Some (local\<lparr>nickname := nickname sq, role := role sq,
                                      targetX := Some (x sq), targetY := Some (y sq)\<rparr>)))"
proof (induction sps arbitrary: store)
  case Nil
  then show ?case by (simp add: lastWithId_def split: option.splits)
next
  case (Cons sp sps)
  show ?case
  proof (cases "store (pid sp)")
    case None
    then show ?thesis
      by (auto simp: Cons.IH lastWithId_Cons Let_def split: option.splits)
  next
    case (Some local)
    then show ?thesis
      by (auto simp: Cons.IH lastWithId_Cons Let_def split: option.splits)
  qed
qed

lemma reconcile_refs:
  "snd (reconcile store sps) =
     map (\<lambda>sp. case store (pid sp) of
                  None \<Rightarrow> Fresh (sp\<lparr>targetX := Some (x sp), targetY := Some (y sp)\<rparr>)
                | Some local \<Rightarrow> Local (pid sp)) sps"
proof (induction sps arbitrary: store)
  case Nil
  then show ?case by simp
next
  case (Cons sp sps)
  show ?case
  proof (cases "store (pid sp)")
    case None
    then show ?thesis by (simp add: Cons.IH Let_def)
  next
    case (Some local)
    have "(case (store(pid sp \<mapsto> v)) (pid q) of None \<Rightarrow> Fresh (q\<lparr>targetX := Some (x q), targetY := Some (y q)\<rparr>)
             | Some l \<Rightarrow> Local (pid q)) =
          (case store (pid q) of None \<Rightarrow> Fresh (q\<lparr>targetX := Some (x q), targetY := Some (y q)\<rparr>)
             | Some l \<Rightarrow> Local (pid q))" for q v
      using Some by (simp split: option.splits)
    then show ?thesis using Some by (simp add: Cons.IH Let_def)
  qed
qed

lemma applyState_refines:
  "playersRef (applyState s payload) =
     map (reconciled (currentMap (playersRef s)) (spPlayers payload)) (spPlayers payload)"
proof -
  let ?m = "currentMap (playersRef s)"
  let ?sps = "spPlayers payload"
  have one: "deref (fst (reconcile ?m ?sps))
               (case ?m (pid sp) of
                  None \<Rightarrow> Fresh (sp\<lparr>targetX := Some (x sp), targetY := Some (y sp)\<rparr>)
                | Some local \<Rightarrow> Local (pid sp)) = [reconciled ?m ?sps sp]" for sp
    by (simp add: reconciled_def reconcile_store split: option.splits)
  have "playersRef (applyState s payload) =
          concat (map (deref (fst (reconcile ?m ?sps))) (snd (reconcile ?m ?sps)))"
    by (simp add: applyState_def Let_def)
  also have "\<dots> = concat (map (\<lambda>sp. [reconciled ?m ?sps sp]) ?sps)"
    by (simp add: reconcile_refs comp_def one)
  also have "\<dots> = map (reconciled ?m ?sps) ?sps"
    by (induction ?sps) simp_all
  finally show ?thesis .
qed

lemma pid_reconciled: "pid (reconciled (currentMap ps) sps sp) = pid sp"
  by (auto simp: reconciled_def split: option.splits dest: currentMap_pid)

lemma map_of_by_pid:
  "map_of (map (\<lambda>p. (pid p, p)) ps) k = find (\<lambda>q. pid q = k) ps"
  by (induction ps) auto

text \<open>\<open>currentMap\<close> finds, for every identity, the last local player that carries it.\<close>

lemma currentMap_lastWithId: "currentMap ps k = lastWithId k ps"
proof -
  have "rev (map (\<lambda>p. (pid p, p)) ps) = map (\<lambda>p. (pid p, p)) (rev ps)" by (rule rev_map)
  then show ?thesis by (simp only: currentMap_def lastWithId_def map_of_by_pid)
qed

lemma lastWithId_None: "(lastWithId k ps = None) = (k \<notin> pid ` set ps)"
  by (auto simp: lastWithId_def find_None_iff)

lemma lastWithId_only:
  assumes "distinct (map pid ps)" "lastWithId k ps = Some local" "l \<in> set ps" "pid l = k"
  shows "l = local"
proof -
  have "local \<in> set ps" "pid local = k" using lastWithId_Some [OF assms(2)] by simp_all
  then show ?thesis using assms(1,3,4) by (meson distinct_map inj_onD)
qed

text \<open>
  Claim C5. Applying a \<open>STATE\<close> message leaves one local player per snapshot entry, in
  the snapshot's order. For an entry whose identity is carried by some local player, the
  result is a local player of that identity (the last one in the local list, the only one
  when the local identities are distinct) with only \<open>targetX\<close>, \<open>targetY\<close>, \<open>role\<close> and
  \<open>nickname\<close> overwritten (by the values of the last snapshot entry of that identity, which
  is the entry itself when the snapshot's identities are distinct); its position \<open>(x, y)\<close>
  is the local one. For an entry whose identity no local player carries, the result is
  the entry with \<open>targetX\<close> and \<open>targetY\<close> set to its own position.
\<close>

theorem applyState_reconciles:
  assumes "i < length (spPlayers payload)"
  shows "length (playersRef (applyState s payload)) = length (spPlayers payload) \<and>
    (if pid (spPlayers payload ! i) \<in> pid ` set (playersRef s) then
       \<exists>local sq.
         local \<in> set (playersRef s) \<and> pid local = pid (spPlayers payload ! i) \<and>
         lastWithId (pid (spPlayers payload ! i)) (playersRef s) = Some local \<and>
         (distinct (map pid (playersRef s)) \<longrightarrow>
            (\<forall>l \<in> set (playersRef s). pid l = pid (spPlayers payload ! i) \<longrightarrow> l = local)) \<and>
         lastWithId (pid (spPlayers payload ! i)) (spPlayers payload) = Some sq \<and>
         (distinct (map pid (spPlayers payload)) \<longrightarrow> sq = spPlayers payload ! i) \<and>
         x (playersRef (applyState s payload) ! i) = x local \<and>
         y (playersRef (applyState s payload) ! i) = y local \<and>
         playersRef (applyState s payload) ! i =
           local\<lparr>nickname := nickname sq, role := role sq,
                 targetX := Some (x sq), targetY := Some (y sq)\<rparr>
     else
       playersRef (applyState s payload) ! i =
         (spPlayers payload ! i)\<lparr>targetX := Some (x (spPlayers payload ! i)),
                                  targetY := Some (y (spPlayers payload ! i))\<rparr>)"
proof -
  let ?sps = "spPlayers payload"
  let ?sp = "?sps ! i"
  have mem: "?sp \<in> set ?sps" using assms by simp
  have nth: "playersRef (applyState s payload) ! i = reconciled (currentMap (playersRef s)) ?sps ?sp"
    using assms by (simp add: applyState_refines)
  have len: "length (playersRef (applyState s payload)) = length ?sps"
    by (simp add: applyState_refines)
  show ?thesis
  proof (cases "pid ?sp \<in> pid ` set (playersRef s)")
    case False
    then have "currentMap (playersRef s) (pid ?sp) = None"
      by (simp add: currentMap_lastWithId lastWithId_None)
    then show ?thesis using False len nth by (simp add: reconciled_def)
  next
    case True
    then obtain local where local: "lastWithId (pid ?sp) (playersRef s) = Some local"
      using lastWithId_None [of "pid ?sp" "playersRef s"] by fastforce
    have found: "currentMap (playersRef s) (pid ?sp) = Some local"
      by (simp add: currentMap_lastWithId local)
    have loc: "local \<in> set (playersRef s)" "pid local = pid ?sp"
      using lastWithId_Some [OF local] by simp_all
    have only: "distinct (map pid (playersRef s)) \<longrightarrow>
        (\<forall>l \<in> set (playersRef s). pid l = pid ?sp \<longrightarrow> l = local)"
      using lastWithId_only [OF _ local] by blast
    obtain sq where sq: "lastWithId (pid ?sp) ?sps = Some sq" using lastWithId_mem [OF mem] by blast
    have d: "distinct (map pid ?sps) \<longrightarrow> sq = ?sp"
      using lastWithId_distinct [OF _ mem] sq by auto
    have eq: "playersRef (applyState s payload) ! i =
        local\<lparr>nickname := nickname sq, role := role sq, targetX := Some (x sq), targetY := Some (y sq)\<rparr>"
      using nth found sq by (simp add: reconciled_def)
    have pos: "x (playersRef (applyState s payload) ! i) = x local"
      "y (playersRef (applyState s payload) ! i) = y local"
      by (simp_all add: eq)
    show ?thesis using True len local loc only sq d eq pos by auto
  qed
qed

text \<open>
  Claim C10. After a \<open>STATE\<close> message the local players carry exactly the identities of
  the snapshot, in the same order; a local identity that the snapshot does not carry is
  gone.
\<close>

theorem applyState_identities:
  "map pid (playersRef (applyState s payload)) = map pid (spPlayers payload) \<and>
   pid ` set (playersRef (applyState s payload)) = pid ` set (spPlayers payload)"
proof -
  have "map pid (playersRef (applyState s payload)) = map pid (spPlayers payload)"
    by (simp add: applyState_refines pid_reconciled comp_def)
  then show ?thesis by (metis list.set_map)
qed

text \<open>
  The theorem for both entries of \<open>sampleSnapshot\<close>: \<open>peer\<close> keeps its position (100, 100)
  and gets the target (130, 120); \<open>new\<close> appears at (200, 210) with that target. And for
  \<open>sampleSnapshotGone\<close>: \<open>gone\<close>, the second local player, keeps its position (300, 300)
  and gets the target (330, 310).
\<close>

theorem applyState_reconciles_witness:
  "x (playersRef (applyState sampleClient sampleSnapshot) ! 0) = 100 \<and>
   y (playersRef (applyState sampleClient sampleSnapshot) ! 0) = 100 \<and>
   targetX (playersRef (applyState sampleClient sampleSnapshot) ! 0) = Some 130 \<and>
   targetY (playersRef (applyState sampleClient sampleSnapshot) ! 0) = Some 120 \<and>
   role (playersRef (applyState sampleClient sampleSnapshot) ! 0) = ZOMBIE \<and>
   nickname (playersRef (applyState sampleClient sampleSnapshot) ! 0) = ''q'' \<and>
   x (playersRef (applyState sampleClient sampleSnapshot) ! 1) = 200 \<and>
   y (playersRef (applyState sampleClient sampleSnapshot) ! 1) = 210 \<and>
   targetX (playersRef (applyState sampleClient sampleSnapshot) ! 1) = Some 200 \<and>
   targetY (playersRef (applyState sampleClient sampleSnapshot) ! 1) = Some 210 \<and>
   x (playersRef (applyState sampleClient sampleSnapshotGone) ! 0) = 300 \<and>
   y (playersRef (applyState sampleClient sampleSnapshotGone) ! 0) = 300 \<and>
   targetX (playersRef (applyState sampleClient sampleSnapshotGone) ! 0) = Some 330 \<and>
   targetY (playersRef (applyState sampleClient sampleSnapshotGone) ! 0) = Some 310 \<and>
   role (playersRef (applyState sampleClient sampleSnapshotGone) ! 0) = ZOMBIE"
  using applyState_reconciles [of 0 sampleSnapshot sampleClient]
    applyState_reconciles [of 1 sampleSnapshot sampleClient]
    applyState_reconciles [of 0 sampleSnapshotGone sampleClient]
  by (simp add: sampleClient_def sampleSnapshot_def sampleSnapshotGone_def lastWithId_def)

text \<open>
  The theorem for \<open>sampleClient\<close> and \<open>sampleSnapshot\<close>: \<open>gone\<close> is removed.
\<close>

theorem applyState_identities_witness:
  "pid ` set (playersRef (applyState sampleClient sampleSnapshot)) = {''peer'', ''new''} \<and>
   ''gone'' \<in> pid ` set (playersRef sampleClient) \<and>
   ''gone'' \<notin> pid ` set (playersRef (applyState sampleClient sampleSnapshot))"
  using applyState_identities [of sampleClient sampleSnapshot]
  by (simp add: sampleClient_def sampleSnapshot_def)

section \<open>Obstacle generation and the safe zone\<close>

lemma set_foldl_push:
  "set (foldl (\<lambda>obstacles i. pushUnlessSafeZone obstacles (f i)) acc is) =
   set acc \<union> {f i | i. i \<in> set is \<and> \<not> centerDist (f i) < safeZoneRadius}"
  by (induction "is" arbitrary: acc) (auto simp: pushUnlessSafeZone_def)

lemma set_generateObstacles:
  "set (generateObstacles rnd) =
     {wallAt rnd i | i. i < WALL_COUNT_LOCAL \<and> \<not> centerDist (wallAt rnd i) < safeZoneRadius} \<union>
     {debrisAt rnd i | i. i < DEBRIS_COUNT_LOCAL \<and> \<not> centerDist (debrisAt rnd i) < safeZoneRadius}"
  by (simp add: generateObstacles_def Let_def set_foldl_push)

text \<open>
  Claim C7, as the code has it. The test of \<open>generateObstacles\<close> is on the centre of the
  candidate: every obstacle it returns has its centre at distance at least
  \<open>safeZoneRadius\<close> (250) from the map centre.
\<close>

theorem generateObstacles_centres:
  "\<forall>obs \<in> set (generateObstacles rnd). safeZoneRadius \<le> centerDist obs"
  by (auto simp: set_generateObstacles)

lemma sqrt_62500: "sqrt 62500 = 250"
  using real_sqrt_abs [of 250] by simp

lemma sqrt_2500: "sqrt 2500 = 50"
  using real_sqrt_abs [of 50] by simp

lemma wallNearCentre_first:
  "wallAt drawsWallNearCentre 0 = \<lparr>ox = 1300, oy = 1230, width = 400, height = 40\<rparr>"
  by (simp add: wallAt_def drawsWallNearCentre_def MAP_WIDTH_def MAP_HEIGHT_def Let_def)

lemma wallNearCentre_centerDist:
  "centerDist \<lparr>ox = 1300, oy = 1230, width = 400, height = 40\<rparr> = 250"
  by (simp add: centerDist_def getDistance_def MAP_WIDTH_def MAP_HEIGHT_def sqrt_62500)

lemma wallNearCentre_generated:
  "\<lparr>ox = 1300, oy = 1230, width = 400, height = 40\<rparr> \<in> set (generateObstacles drawsWallNearCentre)"
proof -
  have "\<not> centerDist (wallAt drawsWallNearCentre 0) < safeZoneRadius"
    by (simp add: wallNearCentre_first wallNearCentre_centerDist safeZoneRadius_def)
  moreover have "(0::nat) < WALL_COUNT_LOCAL" by (simp add: WALL_COUNT_LOCAL_def)
  ultimately have "wallAt drawsWallNearCentre 0 \<in> set (generateObstacles drawsWallNearCentre)"
    unfolding set_generateObstacles by blast
  then show ?thesis by (simp add: wallNearCentre_first)
qed

text \<open>
  Claim C7 as stated fails. With the draws \<open>drawsWallNearCentre\<close> the first wall is the
  rectangle from (1300, 1230) to (1700, 1270). Its centre (1500, 1250) is at distance 250
  from the map centre, so it is kept, and its left edge is at distance 50 from the map
  centre, inside the safe zone.
\<close>

theorem generateObstacles_counterexample:
  "\<lparr>ox = 1300, oy = 1230, width = 400, height = 40\<rparr> \<in> set (generateObstacles drawsWallNearCentre) \<and>
   overlapsSafeZone \<lparr>ox = 1300, oy = 1230, width = 400, height = 40\<rparr>"
  using wallNearCentre_generated
  by (simp add: overlapsSafeZone_def getDistance_def clamp_def MAP_WIDTH_def MAP_HEIGHT_def
      safeZoneRadius_def sqrt_2500)

text \<open>
  The theorem for the wall of the counterexample.
\<close>

theorem generateObstacles_centres_witness:
  "safeZoneRadius \<le> centerDist \<lparr>ox = 1300, oy = 1230, width = 400, height = 40\<rparr>"
  using generateObstacles_centres [of drawsWallNearCentre] wallNearCentre_generated by blast

section \<open>Bot steering: wall slide and wander target\<close>









lemma resampleTarget_all_near:
  assumes "\<And>k. k < 10 \<Longrightarrow>
     \<not> getDistance (x b) (y b) (rnd (2 * k) * (MAP_WIDTH - 100) + 50)
         (rnd (2 * k + 1) * (MAP_HEIGHT - 100) + 50) > 400"
  shows "resampleTarget rnd b False tries = b"
proof (induction "10 - tries" arbitrary: tries)
  case 0
  then show ?case by (simp add: resampleTarget.simps [of rnd b False tries])
next
  case (Suc n)
  then have lt: "tries < 10" and n: "n = 10 - (tries + 1)" by simp_all
  have "resampleTarget rnd b False tries = resampleTarget rnd b False (tries + 1)"
    using lt assms [OF lt] by (simp add: resampleTarget.simps [of rnd b False tries] Let_def)
  then show ?case using Suc.hyps(1) [OF n] by simp
qed

text \<open>
  Claim C9 fails on the code. A bot without a wander target, alone in the list, whose ten
  sampled points all lie within 400 of it (here: on it) leaves the resampling loop with
  \<open>bot.target\<close> still undefined, and the read of \<open>bot.target!.y\<close> is a TypeError.
\<close>

theorem updateBot_undefined_target:
  "updateBot drawsMid wanderingBot [wanderingBot] [] = Inl TypeError"
proof -
  have near: "\<not> getDistance (x wanderingBot) (y wanderingBot)
      (drawsMid (2 * k) * (MAP_WIDTH - 100) + 50) (drawsMid (2 * k + 1) * (MAP_HEIGHT - 100) + 50) > 400"
    for k
    by (simp add: getDistance_def drawsMid_def wanderingBot_def MAP_WIDTH_def MAP_HEIGHT_def)
  have keep: "resampleTarget drawsMid wanderingBot False 0 = wanderingBot"
    using near by (rule resampleTarget_all_near)
  have none: "target wanderingBot = None" "isBot wanderingBot" by (simp_all add: wanderingBot_def)
  have "intent drawsMid wanderingBot None = Inl TypeError"
    by (simp add: intent_def keep none Let_def)
  then show ?thesis
    by (simp add: updateBot_def perceive_def none Let_def)
qed

end
